theory Spec2Isabelle
  imports
    Complex_Main
    "HOL-Library.Char_ord"
    "HOL-Library.List_Lexorder"
    "HOL-Library.Product_Lexorder"
begin

section \<open>Data model (scraper/models.py)\<close>

text \<open>
  Python exceptions are values of \<open>error\<close>; a function that can raise returns
  \<open>error + 'a\<close> with \<open>Inl\<close> for the exception. \<open>Decimal\<close> and \<open>float\<close> values are
  rationals and their arithmetic is exact: \<open>float(x)\<close> is \<open>x\<close>, and no rounding
  of the decimal context or of the binary format is modelled. Points in time are integers
  (microseconds). Strings are lists of characters; the character classes of \<open>str.isalnum\<close>,
  \<open>str.upper\<close> and \<open>str.strip\<close> are those of ASCII.
\<close>

datatype error =
  AttributeError string
  | ValidationError
  | ValueError
  | TypeError

datatype DataSource = PAAPI | SCRAPED | FALLBACK | UNKNOWN

record AmazonProduct =
  asin :: string
  title :: string
  current_price :: "rat option"
  list_price :: "rat option"
  discount_percent :: "int option"
  image_url :: "string option"
  availability :: string
  prime_eligible :: bool
  brand :: "string option"
  features :: "string list"
  data_source :: DataSource
  retrieved_at :: int

record SavingsGuruPost =
  post_id :: string
  post_title :: string
  post_url :: string
  amazon_short_links :: "string list"
  extracted_asins :: "string list"
  category :: string
  description :: "string option"
  scraped_at :: int

text \<open>
  The fields of \<open>Deal\<close> carry the prefix \<open>d_\<close>: \<open>d_date_added\<close> is the field
  \<open>date_added\<close> of the class, \<open>d_discount_percent\<close> is \<open>discount_percent\<close>, and so on.
\<close>

record Deal =
  d_id :: string
  d_title :: string
  d_image_url :: string
  d_price :: rat
  d_original_price :: "rat option"
  d_discount_percent :: "int option"
  d_category :: string
  d_description :: string
  d_affiliate_url :: string
  d_featured :: bool
  d_date_added :: string
  d_data_source :: DataSource
  d_asin :: string

subsection \<open>Attribute access on a Deal\<close>

text \<open>
  \<open>Deal\<close> (models.py, lines 84 to 101) declares thirteen fields, among them
  \<open>date_added\<close> and \<open>discount_percent\<close>, declares no alias, and keeps the default
  configuration, under which an unknown keyword argument is ignored and not stored.
  Reading an attribute by a name that is not a declared field raises
  \<open>AttributeError\<close>. \<open>getattr_Deal d name\<close> is the read \<open>d.name\<close>; the dynamically
  typed result is a \<open>pyval\<close>. The manager (deal_manager.py) reads \<open>deal.asin\<close>,
  \<open>deal.id\<close>, \<open>deal.title\<close> and \<open>deal.featured\<close>, which are fields, and
  \<open>deal.dateAdded\<close> (lines 67 and 131) and \<open>deal.discountPercent\<close> (lines 104,
  106 and 130), which are not.
\<close>

datatype pyval =
  PStr string
  | PFloat rat
  | PInt int
  | PBool bool
  | PNone
  | PSource DataSource

definition opt_float :: "rat option \<Rightarrow> pyval" where
  "opt_float v = (case v of None \<Rightarrow> PNone | Some r \<Rightarrow> PFloat r)"

definition opt_int :: "int option \<Rightarrow> pyval" where
  "opt_int v = (case v of None \<Rightarrow> PNone | Some i \<Rightarrow> PInt i)"

definition getattr_Deal :: "Deal \<Rightarrow> string \<Rightarrow> error + pyval" where
  "getattr_Deal d name =
     (if name = ''id'' then Inr (PStr (d_id d))
      else if name = ''title'' then Inr (PStr (d_title d))
      else if name = ''image_url'' then Inr (PStr (d_image_url d))
      else if name = ''price'' then Inr (PFloat (d_price d))
      else if name = ''original_price'' then Inr (opt_float (d_original_price d))
      else if name = ''discount_percent'' then Inr (opt_int (d_discount_percent d))
      else if name = ''category'' then Inr (PStr (d_category d))
      else if name = ''description'' then Inr (PStr (d_description d))
      else if name = ''affiliate_url'' then Inr (PStr (d_affiliate_url d))
      else if name = ''featured'' then Inr (PBool (d_featured d))
      else if name = ''date_added'' then Inr (PStr (d_date_added d))
      else if name = ''data_source'' then Inr (PSource (d_data_source d))
      else if name = ''asin'' then Inr (PStr (d_asin d))
      else Inl (AttributeError name))"

text \<open>Python truthiness (\<open>if v\<close>, \<open>not v\<close>, \<open>v or w\<close>).\<close>

fun truthy :: "pyval \<Rightarrow> bool" where
  "truthy (PStr s) = (s \<noteq> [])"
| "truthy (PFloat r) = (r \<noteq> 0)"
| "truthy (PInt i) = (i \<noteq> 0)"
| "truthy (PBool b) = b"
| "truthy PNone = False"
| "truthy (PSource s) = True"

text \<open>The value read as the integer, string or boolean the caller goes on to use it as.\<close>

fun as_int :: "pyval \<Rightarrow> error + int" where
  "as_int (PInt i) = Inr i"
| "as_int (PBool b) = Inr (if b then 1 else 0)"
| "as_int v = Inl TypeError"

fun as_str :: "pyval \<Rightarrow> error + string" where
  "as_str (PStr s) = Inr s"
| "as_str v = Inl TypeError"

subsection \<open>Construction of an AmazonProduct\<close>









definition ge0 :: "rat option \<Rightarrow> bool" where
  "ge0 v = (case v of None \<Rightarrow> True | Some r \<Rightarrow> 0 \<le> r)"

definition percent_ok :: "int option \<Rightarrow> bool" where
  "percent_ok v = (case v of None \<Rightarrow> True | Some n \<Rightarrow> 0 \<le> n \<and> n \<le> 100)"



subsection \<open>Deal.from_amazon_product\<close>

text \<open>The three readings of \<open>datetime.utcnow()\<close> the class formats into strings.\<close>

record clock =
  ymd :: string
  ymd_hms :: string
  isoformat :: string

definition generate_id :: "clock \<Rightarrow> string \<Rightarrow> string" where
  "generate_id now v = (if v \<noteq> [] then v else ''deal_'' @ ymd_hms now)"

definition valid_Deal :: "(string \<Rightarrow> bool) \<Rightarrow> Deal \<Rightarrow> bool" where
  "valid_Deal HttpUrl d =
     (HttpUrl (d_image_url d) \<and> 0 \<le> d_price d \<and> ge0 (d_original_price d)
      \<and> percent_ok (d_discount_percent d) \<and> HttpUrl (d_affiliate_url d))"

text \<open>
  \<open>Deal(...)\<close> with every field given; \<open>image_url\<close> is required, so an absent one
  is a validation failure. \<open>None\<close> is the \<open>ValidationError\<close>.
\<close>

definition Deal_init ::
  "(string \<Rightarrow> bool) \<Rightarrow> clock \<Rightarrow> string \<Rightarrow> string \<Rightarrow> string option \<Rightarrow> rat \<Rightarrow> rat option
   \<Rightarrow> int option \<Rightarrow> string \<Rightarrow> string \<Rightarrow> string \<Rightarrow> bool \<Rightarrow> string \<Rightarrow> DataSource \<Rightarrow> string
   \<Rightarrow> Deal option" where
  "Deal_init HttpUrl now i t img p orig disc cat descr aff feat added src a =
     (case img of
        None \<Rightarrow> None
      | Some u \<Rightarrow>
          (let d = \<lparr> d_id = generate_id now i, d_title = t, d_image_url = u, d_price = p,
                     d_original_price = orig, d_discount_percent = disc, d_category = cat,
                     d_description = descr, d_affiliate_url = aff, d_featured = feat,
                     d_date_added = added, d_data_source = src, d_asin = a \<rparr>
           in if valid_Deal HttpUrl d then Some d else None))"

definition to_affiliate_url :: "AmazonProduct \<Rightarrow> string \<Rightarrow> string" where
  "to_affiliate_url p partner_tag = ''https://www.amazon.ca/dp/'' @ asin p @ ''?tag='' @ partner_tag"

text \<open>
  The result is \<open>Inr None\<close> where the source returns \<open>None\<close>, \<open>Inr (Some d)\<close> where
  it returns a deal, and \<open>Inl\<close> where it raises: the read
  \<open>savingsguru_post.description\<close> stands before the \<open>try\<close> block and is made
  also when no post was given.
\<close>

definition from_amazon_product ::
  "(string \<Rightarrow> bool) \<Rightarrow> clock \<Rightarrow> AmazonProduct \<Rightarrow> string \<Rightarrow> SavingsGuruPost option
   \<Rightarrow> error + Deal option" where
  "from_amazon_product HttpUrl now amazon_product partner_tag savingsguru_post =
     (case current_price amazon_product of
        None \<Rightarrow> Inr None
      | Some price \<Rightarrow>
          if price = 0 \<or> price \<le> 0 then Inr None
          else (case savingsguru_post of
                  None \<Rightarrow> Inl (AttributeError ''description'')
                | Some post \<Rightarrow>
                    (let description =
                           (case description post of
                              None \<Rightarrow> ''Great deal on '' @ title amazon_product
                            | Some s \<Rightarrow>
                                if s \<noteq> [] then s else ''Great deal on '' @ title amazon_product);
                         deal_id = ''deal_'' @ asin amazon_product @ ''_'' @ ymd now;
                         featured =
                           (case discount_percent amazon_product of
                              None \<Rightarrow> False
                            | Some n \<Rightarrow> n \<ge> 40)
                     in Inr (Deal_init HttpUrl now deal_id (title amazon_product)
                               (image_url amazon_product) price
                               (case list_price amazon_product of
                                  None \<Rightarrow> None
                                | Some l \<Rightarrow> if l \<noteq> 0 then Some l else None)
                               (discount_percent amazon_product) (category post) description
                               (to_affiliate_url amazon_product partner_tag) featured
                               (isoformat now) (data_source amazon_product)
                               (asin amazon_product)))))"

section \<open>Catalog lifecycle manager (scraper/deal_manager.py)\<close>

subsection \<open>filter_fresh_deals\<close>

text \<open>
  \<open>str.replace('Z', '+00:00')\<close>, and the body of the \<open>try\<close> block for one deal:
  it reads \<open>deal.dateAdded\<close>, parses it and compares with the cutoff.
  \<open>fromisoformat\<close> stands for \<open>datetime.fromisoformat(s).replace(tzinfo=None)\<close>
  (\<open>None\<close> when the string does not parse), \<open>now\<close> for \<open>datetime.utcnow()\<close>.
\<close>

definition replace_Z :: "string \<Rightarrow> string" where
  "replace_Z s = concat (map (\<lambda>c. if c = CHR ''Z'' then ''+00:00'' else [c]) s)"

definition hours_us :: "int \<Rightarrow> int" where
  "hours_us h = h * 3600000000"

definition is_fresh :: "(string \<Rightarrow> int option) \<Rightarrow> int \<Rightarrow> Deal \<Rightarrow> error + bool" where
  "is_fresh fromisoformat cutoff_time deal =
     (case getattr_Deal deal ''dateAdded'' of
        Inl e \<Rightarrow> Inl e
      | Inr v \<Rightarrow>
          (case as_str v of
             Inl e \<Rightarrow> Inl e
           | Inr s \<Rightarrow>
               (case fromisoformat (replace_Z s) of
                  None \<Rightarrow> Inl ValueError
                | Some deal_time \<Rightarrow> Inr (deal_time > cutoff_time))))"

fun fresh_loop :: "(string \<Rightarrow> int option) \<Rightarrow> int \<Rightarrow> Deal list \<Rightarrow> Deal list" where
  "fresh_loop fromisoformat cutoff_time [] = []"
| "fresh_loop fromisoformat cutoff_time (deal # deals) =
     (case is_fresh fromisoformat cutoff_time deal of
        Inr True \<Rightarrow> deal # fresh_loop fromisoformat cutoff_time deals
      | Inr False \<Rightarrow> fresh_loop fromisoformat cutoff_time deals
      | Inl e \<Rightarrow> deal # fresh_loop fromisoformat cutoff_time deals)"

definition filter_fresh_deals ::
  "(string \<Rightarrow> int option) \<Rightarrow> int \<Rightarrow> int \<Rightarrow> Deal list \<Rightarrow> Deal list" where
  "filter_fresh_deals fromisoformat now deal_freshness_hours deals =
     fresh_loop fromisoformat (now - hours_us deal_freshness_hours) deals"

subsection \<open>deduplicate_deals\<close>

text \<open>
  The manager's \<open>existing_asins\<close> set is state: the function takes it and returns it
  updated, next to the list of accepted deals.
\<close>

fun deduplicate_deals :: "string set \<Rightarrow> Deal list \<Rightarrow> Deal list \<times> string set" where
  "deduplicate_deals existing_asins [] = ([], existing_asins)"
| "deduplicate_deals existing_asins (deal # new_deals) =
     (if d_asin deal \<notin> existing_asins
      then (case deduplicate_deals (insert (d_asin deal) existing_asins) new_deals of
              (unique_deals, asins) \<Rightarrow> (deal # unique_deals, asins))
      else deduplicate_deals existing_asins new_deals)"

subsection \<open>filter_quality_deals\<close>

fun filter_quality_deals :: "int \<Rightarrow> Deal list \<Rightarrow> error + Deal list" where
  "filter_quality_deals min_deal_discount [] = Inr []"
| "filter_quality_deals min_deal_discount (deal # deals) =
     (case getattr_Deal deal ''discountPercent'' of
        Inl e \<Rightarrow> Inl e
      | Inr v \<Rightarrow>
          (case (if truthy v then as_int v else Inr 0) of
             Inl e \<Rightarrow> Inl e
           | Inr n \<Rightarrow>
               (case filter_quality_deals min_deal_discount deals of
                  Inl e \<Rightarrow> Inl e
                | Inr quality_deals \<Rightarrow>
                    if truthy v \<and> n \<ge> min_deal_discount then Inr (deal # quality_deals)
                    else if \<not> truthy v then Inr (deal # quality_deals)
                    else Inr quality_deals)))"

subsection \<open>manage_deal_count\<close>

text \<open>
  \<open>sorted(xs, key=f)\<close> computes the key of every element first (the first key that
  raises ends the call) and sorts stably by the keys, ascending. A slice \<open>xs[:n]\<close>
  with negative \<open>n\<close> drops the last \<open>-n\<close> elements.
\<close>

fun keys_of :: "('a \<Rightarrow> error + 'k) \<Rightarrow> 'a list \<Rightarrow> error + ('k \<times> 'a) list" where
  "keys_of f [] = Inr []"
| "keys_of f (x # xs) =
     (case f x of
        Inl e \<Rightarrow> Inl e
      | Inr k \<Rightarrow> (case keys_of f xs of Inl e \<Rightarrow> Inl e | Inr ks \<Rightarrow> Inr ((k, x) # ks)))"

definition sorted_by :: "('a \<Rightarrow> error + 'k::linorder) \<Rightarrow> 'a list \<Rightarrow> error + 'a list" where
  "sorted_by f xs =
     (case keys_of f xs of Inl e \<Rightarrow> Inl e | Inr ks \<Rightarrow> Inr (map snd (sort_key fst ks)))"

definition slice_to :: "int \<Rightarrow> 'a list \<Rightarrow> 'a list" where
  "slice_to n xs = (if 0 \<le> n then take (nat n) xs else take (length xs - nat (- n)) xs)"

definition deal_priority :: "Deal \<Rightarrow> error + (bool \<times> int \<times> string)" where
  "deal_priority deal =
     (case getattr_Deal deal ''featured'' of
        Inl e \<Rightarrow> Inl e
      | Inr f \<Rightarrow>
          (case getattr_Deal deal ''discountPercent'' of
             Inl e \<Rightarrow> Inl e
           | Inr v \<Rightarrow>
               (case as_int (if truthy v then v else PInt 0) of
                  Inl e \<Rightarrow> Inl e
                | Inr n \<Rightarrow>
                    (case getattr_Deal deal ''dateAdded'' of
                       Inl e \<Rightarrow> Inl e
                     | Inr a \<Rightarrow>
                         (case as_str a of
                            Inl e \<Rightarrow> Inl e
                          | Inr s \<Rightarrow> Inr (\<not> truthy f, - n, s))))))"

definition manage_deal_count :: "int \<Rightarrow> Deal list \<Rightarrow> error + Deal list" where
  "manage_deal_count target all_deals =
     (if int (length all_deals) \<le> target then Inr all_deals
      else (case sorted_by deal_priority all_deals of
              Inl e \<Rightarrow> Inl e
            | Inr sorted_deals \<Rightarrow> Inr (slice_to target sorted_deals)))"

section \<open>Structured source client (scraper/amazon_api.py)\<close>















section \<open>Settings (scraper/settings.py)\<close>

record Settings =
  amz_access_key :: string
  amz_secret_key :: string
  amz_partner_tag :: string
  amz_marketplace :: string
  api_rate_limit_delay :: rat
  scraper_delay_min :: rat
  scraper_delay_max :: rat
  max_retry_attempts :: int
  request_timeout :: rat
  target_deal_count :: int
  max_pages_to_scrape :: int
  deal_freshness_hours :: int
  min_deal_discount :: int
  app_env :: string
  log_level :: string
  debug :: bool












section \<open>The pipeline of the manager (scraper/deal_manager.py, process_deals)\<close>

record DealManager =
  existing_deals :: "Deal list"
  existing_asins :: "string set"

text \<open>
  \<open>file\<close> is what reading the catalog file gives: \<open>None\<close> when the file is missing
  or cannot be read, else the records that pass the validation of \<open>Deal\<close>, in order.
\<close>

definition load_existing_deals :: "Deal list option \<Rightarrow> DealManager \<Rightarrow> Deal list \<times> DealManager" where
  "load_existing_deals file m =
     (case file of
        None \<Rightarrow> ([], m)
      | Some deals \<Rightarrow> (deals, \<lparr> existing_deals = deals, existing_asins = set (map d_asin deals) \<rparr>))"

record DealStats =
  stat_existing_deals :: int
  stat_new_deals_scraped :: int
  stat_final_deal_count :: int
  stat_deals_added :: int
  stat_target_remaining :: int

definition get_scraping_stats :: "Settings \<Rightarrow> int \<Rightarrow> int \<Rightarrow> int \<Rightarrow> DealStats" where
  "get_scraping_stats settings existing_count new_count final_count =
     \<lparr> stat_existing_deals = existing_count, stat_new_deals_scraped = new_count,
       stat_final_deal_count = final_count,
       stat_deals_added = max 0 (final_count - existing_count),
       stat_target_remaining = max 0 (target_deal_count settings - final_count) \<rparr>"

definition process_deals ::
  "(string \<Rightarrow> int option) \<Rightarrow> int \<Rightarrow> Settings \<Rightarrow> Deal list option \<Rightarrow> Deal list \<Rightarrow> DealManager
   \<Rightarrow> error + ((Deal list \<times> DealStats) \<times> DealManager)" where
  "process_deals fromisoformat now settings file new_deals m =
     (case load_existing_deals file m of
        (loaded, m1) \<Rightarrow>
          (let existing_count = int (length loaded);
               fresh_existing =
                 filter_fresh_deals fromisoformat now (deal_freshness_hours settings) loaded
           in (case deduplicate_deals (existing_asins m1) new_deals of
                 (unique_new_deals, asins) \<Rightarrow>
                   (let new_count = int (length unique_new_deals)
                    in (case filter_quality_deals (min_deal_discount settings) unique_new_deals of
                          Inl e \<Rightarrow> Inl e
                        | Inr quality_new_deals \<Rightarrow>
                            (case manage_deal_count (target_deal_count settings)
                                    (fresh_existing @ quality_new_deals) of
                               Inl e \<Rightarrow> Inl e
                             | Inr final_deals \<Rightarrow>
                                 Inr ((final_deals,
                                       get_scraping_stats settings existing_count new_count
                                         (int (length final_deals))),
                                      m1\<lparr> existing_asins := asins \<rparr>)))))))"

section \<open>Resolution orchestrator (scraper/focused_scraper.py)\<close>

record ScrapingSession =
  session_id :: string
  started_at :: int
  completed_at :: "int option"
  total_products_attempted :: int
  total_products_successful :: int
  total_api_calls :: int
  total_scraping_calls :: int
  errors :: "string list"

definition add_error :: "clock \<Rightarrow> string \<Rightarrow> ScrapingSession \<Rightarrow> ScrapingSession" where
  "add_error now msg ss = ss\<lparr> errors := errors ss @ [isoformat now @ '': '' @ msg] \<rparr>"

record Stats =
  posts_scraped :: int
  asins_found :: int
  paapi_success :: int
  scraping_success :: int
  products_skipped :: int
  deals_created :: int

text \<open>
  The state the orchestrator changes: its session and its statistics. The two lists
  record, in order, the identifiers handed to each client (to
  \<open>amazon_api.get_product_info\<close> and to \<open>scraper_client.scrape_product\<close>). Each
  client is a parameter: for an identifier it raises, returns \<open>None\<close> or returns a
  product.
\<close>

record FocusedScraper =
  session :: ScrapingSession
  stats :: Stats
  api_invoked :: "string list"
  scraper_invoked :: "string list"

text \<open>\<open>product.current_price and product.current_price > 0\<close>\<close>

definition priced :: "AmazonProduct \<Rightarrow> bool" where
  "priced p = (case current_price p of None \<Rightarrow> False | Some c \<Rightarrow> c \<noteq> 0 \<and> c > 0)"

text \<open>What a client yields is a product with a present current price above zero.\<close>

definition yields_priced :: "error + AmazonProduct option \<Rightarrow> bool" where
  "yields_priced r = (case r of Inr (Some product) \<Rightarrow> priced product | _ \<Rightarrow> False)"

definition try_paapi ::
  "(string \<Rightarrow> error + AmazonProduct option) \<Rightarrow> string \<Rightarrow> FocusedScraper
   \<Rightarrow> AmazonProduct option \<times> FocusedScraper" where
  "try_paapi amazon_api a s =
     (let s1 = s\<lparr> session := (session s)\<lparr> total_api_calls := total_api_calls (session s) + 1 \<rparr>,
                  api_invoked := api_invoked s @ [a] \<rparr>
      in (case amazon_api a of
            Inl e \<Rightarrow> (None, s1)
          | Inr None \<Rightarrow> (None, s1)
          | Inr (Some product) \<Rightarrow> if priced product then (Some product, s1) else (None, s1)))"

definition try_web_scraping ::
  "(string \<Rightarrow> error + AmazonProduct option) \<Rightarrow> string \<Rightarrow> FocusedScraper
   \<Rightarrow> AmazonProduct option \<times> FocusedScraper" where
  "try_web_scraping scraper_client a s =
     (let s1 = s\<lparr> session := (session s)\<lparr> total_scraping_calls :=
                                               total_scraping_calls (session s) + 1 \<rparr>,
                  scraper_invoked := scraper_invoked s @ [a] \<rparr>
      in (case scraper_client a of
            Inl e \<Rightarrow> (None, s1)
          | Inr None \<Rightarrow> (None, s1)
          | Inr (Some product) \<Rightarrow> if priced product then (Some product, s1) else (None, s1)))"

text \<open>
  One pass of the loop body of \<open>get_real_product_data\<close>, for one identifier, on the
  \<open>results\<close> dictionary and the state.
\<close>

type_synonym results = "string \<rightharpoonup> AmazonProduct option"

definition success :: "FocusedScraper \<Rightarrow> FocusedScraper" where
  "success s = s\<lparr> session := (session s)\<lparr> total_products_successful :=
                                             total_products_successful (session s) + 1 \<rparr> \<rparr>"

definition process_asin ::
  "(string \<Rightarrow> error + AmazonProduct option) \<Rightarrow> (string \<Rightarrow> error + AmazonProduct option) \<Rightarrow> clock
   \<Rightarrow> string \<Rightarrow> results \<times> FocusedScraper \<Rightarrow> results \<times> FocusedScraper" where
  "process_asin amazon_api scraper_client now a rs =
     (case rs of
        (results, s) \<Rightarrow>
          (let s0 = s\<lparr> session := (session s)\<lparr> total_products_attempted :=
                                                    total_products_attempted (session s) + 1 \<rparr>,
                       stats := (stats s)\<lparr> asins_found := asins_found (stats s) + 1 \<rparr> \<rparr>
           in (case try_paapi amazon_api a s0 of
                 (Some product, s1) \<Rightarrow>
                   (results(a \<mapsto> Some product),
                    (success s1)\<lparr> stats := (stats s1)\<lparr> paapi_success :=
                                                          paapi_success (stats s1) + 1 \<rparr> \<rparr>)
               | (None, s1) \<Rightarrow>
                   (case try_web_scraping scraper_client a s1 of
                      (Some product, s2) \<Rightarrow>
                        (results(a \<mapsto> Some product),
                         (success s2)\<lparr> stats := (stats s2)\<lparr> scraping_success :=
                                                               scraping_success (stats s2) + 1 \<rparr> \<rparr>)
                    | (None, s2) \<Rightarrow>
                        (results(a \<mapsto> None),
                         s2\<lparr> stats := (stats s2)\<lparr> products_skipped :=
                                                     products_skipped (stats s2) + 1 \<rparr>,
                             session := add_error now (''No real data available for ASIN '' @ a)
                                          (session s2) \<rparr>)))))"

definition get_real_product_data ::
  "(string \<Rightarrow> error + AmazonProduct option) \<Rightarrow> (string \<Rightarrow> error + AmazonProduct option) \<Rightarrow> clock
   \<Rightarrow> string list \<Rightarrow> FocusedScraper \<Rightarrow> results \<times> FocusedScraper" where
  "get_real_product_data amazon_api scraper_client now asins s =
     fold (process_asin amazon_api scraper_client now) asins (Map.empty, s)"

subsection \<open>Featured deals\<close>

text \<open>
  \<open>sorted(deals, key=lambda d: d.discount_percent or 0, reverse=True)\<close>: descending
  by the key, entries with equal keys in their original order.
\<close>

definition sort_deals_by_discount :: "Deal list \<Rightarrow> Deal list" where
  "sort_deals_by_discount deals =
     sort_key (\<lambda>d. - (case d_discount_percent d of None \<Rightarrow> 0 | Some n \<Rightarrow> n)) deals"

fun mark_loop :: "int \<Rightarrow> nat \<Rightarrow> Deal list \<Rightarrow> Deal list" where
  "mark_loop featured_threshold featured_count [] = []"
| "mark_loop featured_threshold featured_count (deal # deals) =
     (if (case d_discount_percent deal of
            None \<Rightarrow> False
          | Some n \<Rightarrow> n \<noteq> 0 \<and> n \<ge> featured_threshold) \<and> featured_count < 20
      then deal\<lparr> d_featured := True \<rparr> # mark_loop featured_threshold (featured_count + 1) deals
      else deal\<lparr> d_featured := False \<rparr> # mark_loop featured_threshold featured_count deals)"

definition mark_featured_deals :: "int \<Rightarrow> Deal list \<Rightarrow> Deal list" where
  "mark_featured_deals featured_threshold deals =
     mark_loop featured_threshold 0 (sort_deals_by_discount deals)"

text \<open>
  Steps 5 and 6 of \<open>scrape_deals\<close>: the manager's pipeline, then the marking pass with
  the default threshold. An exception of the pipeline ends in the handler of
  \<open>scrape_deals\<close>, which returns the empty list.
\<close>

definition scrape_deals_final ::
  "(string \<Rightarrow> int option) \<Rightarrow> int \<Rightarrow> Settings \<Rightarrow> Deal list option \<Rightarrow> Deal list \<Rightarrow> DealManager
   \<Rightarrow> Deal list" where
  "scrape_deals_final fromisoformat now settings file new_deals m =
     (case process_deals fromisoformat now settings file new_deals m of
        Inl e \<Rightarrow> []
      | Inr ((final_deals, deal_stats), m') \<Rightarrow> mark_featured_deals 40 final_deals)"

section \<open>Concrete inputs\<close>

text \<open>A well-formed deal with the given id, identifier, discount, date and flag.\<close>

definition example_deal :: "string \<Rightarrow> string \<Rightarrow> int option \<Rightarrow> string \<Rightarrow> bool \<Rightarrow> Deal" where
  "example_deal i a disc added feat =
     \<lparr> d_id = i, d_title = ''Kettle'', d_image_url = ''https://example.com/image.jpg'',
       d_price = 20, d_original_price = Some 40, d_discount_percent = disc,
       d_category = ''General'', d_description = ''Great deal on Kettle'',
       d_affiliate_url = ''https://www.amazon.ca/dp/'' @ a @ ''?tag=test-tag-20'',
       d_featured = feat, d_date_added = added, d_data_source = PAAPI, d_asin = a \<rparr>"

text \<open>
  A parser of the two dates used below, counting microseconds from
  2024-01-01T00:00:00; the current time of the examples is 2024-01-03T00:00:00.
\<close>

definition iso_2024 :: "string \<Rightarrow> int option" where
  "iso_2024 s =
     (if s = ''2024-01-01T00:00:00'' then Some 0
      else if s = ''2024-01-02T23:00:00'' then Some (hours_us 47)
      else None)"

definition stale_deal :: Deal where
  "stale_deal =
     example_deal ''deal_B000000001_20240101'' ''B000000001'' (Some 50) ''2024-01-01T00:00:00'' True"

definition recent_deal :: Deal where
  "recent_deal =
     example_deal ''deal_B000000002_20240102'' ''B000000002'' (Some 20) ''2024-01-02T23:00:00'' False"

definition low_discount_deal :: Deal where
  "low_discount_deal =
     example_deal ''deal_B000000003_20240102'' ''B000000003'' (Some 5) ''2024-01-02T23:00:00'' False"

definition no_discount_deal :: Deal where
  "no_discount_deal =
     example_deal ''deal_B000000004_20240102'' ''B000000004'' None ''2024-01-02T23:00:00'' False"


definition example_clock :: clock where
  "example_clock =
     \<lparr> ymd = ''20240103'', ymd_hms = ''20240103_000000'', isoformat = ''2024-01-03T00:00:00'' \<rparr>"

definition example_product :: AmazonProduct where
  "example_product =
     \<lparr> asin = ''B08N5WRWNW'', title = ''Test Product'', current_price = Some (2999 / 100),
       list_price = Some (4999 / 100), discount_percent = Some 40,
       image_url = Some ''https://example.com/image.jpg'', availability = ''Available'',
       prime_eligible = False, brand = Some ''TestBrand'',
       features = [''Feature 1'', ''Feature 2''], data_source = PAAPI, retrieved_at = 0 \<rparr>"



text \<open>
  The settings of the test suite (every field but the credentials at its default), a
  manager that has loaded nothing yet, and a catalog entry that carries the featured
  flag with a discount of 20.
\<close>

definition example_settings :: Settings where
  "example_settings =
     \<lparr> amz_access_key = ''test_access_key'', amz_secret_key = ''test_secret_key'',
       amz_partner_tag = ''test-tag-20'', amz_marketplace = ''CA'', api_rate_limit_delay = 1,
       scraper_delay_min = 1, scraper_delay_max = 3, max_retry_attempts = 3,
       request_timeout = 30, target_deal_count = 120, max_pages_to_scrape = 20,
       deal_freshness_hours = 24, min_deal_discount = 10, app_env = ''testing'',
       log_level = ''INFO'', debug = False \<rparr>"

definition new_manager :: DealManager where
  "new_manager = \<lparr> existing_deals = [], existing_asins = {} \<rparr>"

definition mislabeled_deal :: Deal where
  "mislabeled_deal =
     example_deal ''deal_B000000005_20240102'' ''B000000005'' (Some 20) ''2024-01-02T23:00:00'' True"









text \<open>
  Two clients for the orchestrator: the structured source knows one identifier, the
  fallback none. The orchestrator starts from zeroed counters.
\<close>

definition example_api :: "string \<Rightarrow> error + AmazonProduct option" where
  "example_api a = (if a = ''B08N5WRWNW'' then Inr (Some example_product) else Inr None)"

definition example_scraper :: "string \<Rightarrow> error + AmazonProduct option" where
  "example_scraper a = Inr None"

definition initial_scraper :: FocusedScraper where
  "initial_scraper =
     \<lparr> session = \<lparr> session_id = ''session_1'', started_at = 0, completed_at = None,
                   total_products_attempted = 0, total_products_successful = 0,
                   total_api_calls = 0, total_scraping_calls = 0, errors = [] \<rparr>,
       stats = \<lparr> posts_scraped = 0, asins_found = 0, paapi_success = 0, scraping_success = 0,
                 products_skipped = 0, deals_created = 0 \<rparr>,
       api_invoked = [], scraper_invoked = [] \<rparr>"

section \<open>Properties of the catalog lifecycle manager\<close>

subsection \<open>Deduplication\<close>

lemma filter_upt_Suc:
  "filter P [0..<Suc n] =
     (if P 0 then [0] else []) @ map Suc (filter (\<lambda>i. P (Suc i)) [0..<n])"
proof -
  have "[0..<Suc n] = 0 # map Suc [0..<n]"
    by (simp add: upt_conv_Cons map_Suc_upt del: upt_Suc)
  then show ?thesis
    by (simp add: filter_map comp_def del: upt_Suc)
qed

lemma dedup_accepted:
  "fst (deduplicate_deals E ds) =
     map (\<lambda>i. ds ! i)
       (filter (\<lambda>i. d_asin (ds ! i) \<notin> E \<union> d_asin ` set (take i ds)) [0..<length ds])"
proof (induction ds arbitrary: E)
  case Nil
  then show ?case by simp
next
  case (Cons d ds)
  show ?case
  proof (cases "d_asin d \<in> E")
    case True
    have "(\<lambda>i. d_asin (ds ! i) \<notin> E \<and> d_asin (ds ! i) \<noteq> d_asin d
                \<and> d_asin (ds ! i) \<notin> d_asin ` set (take i ds))
        = (\<lambda>i. d_asin (ds ! i) \<notin> E \<union> d_asin ` set (take i ds))"
      using True by auto
    then show ?thesis
      using True Cons.IH [of E] by (simp add: filter_upt_Suc comp_def del: upt_Suc)
  next
    case False
    then show ?thesis
      using Cons.IH [of "insert (d_asin d) E"]
      by (simp add: filter_upt_Suc comp_def case_prod_beta conj_ac del: upt_Suc)
  qed
qed

lemma dedup_asins: "snd (deduplicate_deals E ds) = E \<union> d_asin ` set ds"
  by (induction ds arbitrary: E) (auto simp: case_prod_beta)

text \<open>
  C3. The deals \<open>deduplicate_deals\<close> accepts are, in order, exactly the entries of the
  new batch whose identifier is neither among the existing identifiers nor carried by an
  entry earlier in the batch (the first occurrence wins, every later one is dropped),
  and the identifier set it leaves behind is the existing one joined with the
  identifiers of the batch.
\<close>

theorem deduplicate_deals_first_occurrence:
  "fst (deduplicate_deals E ds) =
     map (\<lambda>i. ds ! i)
       (filter (\<lambda>i. d_asin (ds ! i) \<notin> E \<union> d_asin ` set (take i ds)) [0..<length ds])
   \<and> snd (deduplicate_deals E ds) = E \<union> d_asin ` set ds"
  by (simp add: dedup_accepted dedup_asins)

text \<open>
  With the existing identifiers A and B and the batch A, C, C, exactly the first entry
  with identifier C is accepted.
\<close>

theorem deduplicate_deals_example:
  "fst (deduplicate_deals {''A'', ''B''}
          [example_deal ''deal_1'' ''A'' None ''2024-01-01T00:00:00'' False,
           example_deal ''deal_2'' ''C'' None ''2024-01-01T00:00:00'' False,
           example_deal ''deal_3'' ''C'' None ''2024-01-01T00:00:00'' False])
     = [example_deal ''deal_2'' ''C'' None ''2024-01-01T00:00:00'' False]"
proof -
  let ?ds = "[example_deal ''deal_1'' ''A'' None ''2024-01-01T00:00:00'' False,
              example_deal ''deal_2'' ''C'' None ''2024-01-01T00:00:00'' False,
              example_deal ''deal_3'' ''C'' None ''2024-01-01T00:00:00'' False]"
  have "fst (deduplicate_deals {''A'', ''B''} ?ds) =
          map (\<lambda>i. ?ds ! i)
            (filter (\<lambda>i. d_asin (?ds ! i) \<notin> {''A'', ''B''} \<union> d_asin ` set (take i ?ds))
               [0..<length ?ds])"
    using deduplicate_deals_first_occurrence [of "{''A'', ''B''}" ?ds] by (rule conjunct1)
  also have "\<dots> = [example_deal ''deal_2'' ''C'' None ''2024-01-01T00:00:00'' False]"
    by (simp add: example_deal_def upt_rec)
  finally show ?thesis .
qed

subsection \<open>Freshness\<close>

lemma is_fresh_raises: "is_fresh f c d = Inl (AttributeError ''dateAdded'')"
  by (simp add: is_fresh_def getattr_Deal_def)

lemma fresh_loop_keeps_all: "fresh_loop f c ds = ds"
  by (induction ds) (simp_all add: is_fresh_raises)

lemma filter_fresh_keeps_all: "filter_fresh_deals f now h ds = ds"
  by (simp add: filter_fresh_deals_def fresh_loop_keeps_all)

text \<open>
  C4. The freshness filter is to drop an existing entry added 48 hours ago under a
  24-hour window. The source reads \<open>deal.dateAdded\<close>, a name \<open>Deal\<close> does not have
  (its field is \<open>date_added\<close>); the read raises inside the \<open>try\<close> block and the
  handler keeps the entry. The entry below was added at 2024-01-01T00:00:00, its date
  parses, it is not newer than the cutoff of 2024-01-02T00:00:00, and it is kept.
\<close>

theorem filter_fresh_deals_retains_stale:
  "iso_2024 (replace_Z (d_date_added stale_deal)) = Some 0
   \<and> 0 \<le> hours_us 48 - hours_us 24
   \<and> filter_fresh_deals iso_2024 (hours_us 48) 24 [stale_deal, recent_deal]
       = [stale_deal, recent_deal]"
  by (simp add: filter_fresh_keeps_all iso_2024_def replace_Z_def stale_deal_def
      example_deal_def hours_us_def)

subsection \<open>Quality filter\<close>

lemma quality_raises_nonempty:
  "filter_quality_deals m (d # ds) = Inl (AttributeError ''discountPercent'')"
  by (simp add: getattr_Deal_def)

text \<open>
  C5. The quality filter is to drop an entry with a discount of 5 under a minimum of 10
  and to keep one without a discount. The source reads \<open>deal.discountPercent\<close>, a
  name \<open>Deal\<close> does not have (its field is \<open>discount_percent\<close>): on either entry the
  call raises and returns no list.
\<close>

theorem filter_quality_deals_raises_on_entry:
  "filter_quality_deals 10 [low_discount_deal] = Inl (AttributeError ''discountPercent'')
   \<and> filter_quality_deals 10 [no_discount_deal] = Inl (AttributeError ''discountPercent'')"
  by (intro conjI quality_raises_nonempty)

subsection \<open>Count management\<close>

lemma priority_raises: "deal_priority d = Inl (AttributeError ''discountPercent'')"
  by (simp add: deal_priority_def getattr_Deal_def)

lemma sorted_priority_raises:
  "sorted_by deal_priority (d # ds) = Inl (AttributeError ''discountPercent'')"
  by (simp add: sorted_by_def priority_raises)

lemma count_within_target:
  "int (length ds) \<le> target \<Longrightarrow> manage_deal_count target ds = Inr ds"
  by (simp add: manage_deal_count_def)

lemma count_over_target:
  "target < int (length ds) \<Longrightarrow> ds \<noteq> [] \<Longrightarrow>
   manage_deal_count target ds = Inl (AttributeError ''discountPercent'')"
  by (cases ds) (simp_all add: manage_deal_count_def sorted_priority_raises)

text \<open>
  C6. Count management is to cut 130 entries down to the 120 of highest priority. A list
  within the target is returned as it is; for a longer one the key function reads
  \<open>deal.discountPercent\<close> and \<open>deal.dateAdded\<close>, names \<open>Deal\<close> does not have, and
  the call raises at the first key: no list of 120 is returned for 130 entries, nor one
  entry for two under a target of one.
\<close>

theorem manage_deal_count_raises_over_target:
  "manage_deal_count 120 (replicate 130 recent_deal) = Inl (AttributeError ''discountPercent'')
   \<and> manage_deal_count 1 [stale_deal, recent_deal] = Inl (AttributeError ''discountPercent'')
   \<and> manage_deal_count 120 [stale_deal, recent_deal] = Inr [stale_deal, recent_deal]"
proof -
  have "replicate 130 recent_deal \<noteq> []" by simp
  then have "manage_deal_count 120 (replicate 130 recent_deal)
               = Inl (AttributeError ''discountPercent'')"
    by (intro count_over_target) simp_all
  then show ?thesis
    by (simp add: count_over_target count_within_target)
qed

section \<open>Properties of the deal factory\<close>

text \<open>
  Without a post the read of \<open>savingsguru_post.description\<close> raises as soon as the
  price check has passed; with a post the function returns.
\<close>

lemma from_amazon_product_without_post:
  "current_price p = Some c \<Longrightarrow> 0 < c \<Longrightarrow>
   from_amazon_product U now p tag None = Inl (AttributeError ''description'')"
  by (simp add: from_amazon_product_def)



section \<open>Properties of the resolution orchestrator\<close>

subsection \<open>One identifier\<close>

lemma step_scraper:
  "scraper_invoked (snd (process_asin api scr now a (r, s)))
     = scraper_invoked s @ (if yields_priced (api a) then [] else [a])"
  by (auto simp: process_asin_def try_paapi_def try_web_scraping_def yields_priced_def
      success_def Let_def split: sum.splits option.splits)

lemma step_api:
  "api_invoked (snd (process_asin api scr now a (r, s))) = api_invoked s @ [a]"
  by (auto simp: process_asin_def try_paapi_def try_web_scraping_def success_def Let_def
      split: sum.splits option.splits)

lemma step_success:
  "paapi_success (stats (snd (process_asin api scr now a (r, s))))
     = paapi_success (stats s) + (if yields_priced (api a) then 1 else 0)"
  by (auto simp: process_asin_def try_paapi_def try_web_scraping_def yields_priced_def
      success_def Let_def split: sum.splits option.splits)

lemma step_results:
  "fst (process_asin api scr now a (r, s)) b =
     (if b = a then
        (if yields_priced (api a) then Some (case api a of Inr p \<Rightarrow> p)
         else if yields_priced (scr a) then Some (case scr a of Inr p \<Rightarrow> p) else Some None)
      else r b)"
  by (auto simp: process_asin_def try_paapi_def try_web_scraping_def yields_priced_def
      success_def Let_def split: sum.splits option.splits)

subsection \<open>The whole list\<close>

lemma run_scraper:
  "scraper_invoked (snd (fold (process_asin api scr now) asins (r, s)))
     = scraper_invoked s @ filter (\<lambda>a. \<not> yields_priced (api a)) asins"
proof (induction asins arbitrary: r s)
  case Nil
  then show ?case by simp
next
  case (Cons a asins)
  obtain r' s' where st: "process_asin api scr now a (r, s) = (r', s')"
    by (cases "process_asin api scr now a (r, s)")
  have "scraper_invoked s' = scraper_invoked s @ (if yields_priced (api a) then [] else [a])"
    using step_scraper [of api scr now a r s] st by simp
  then show ?case
    using Cons.IH [of r' s'] st by simp
qed

lemma run_api:
  "api_invoked (snd (fold (process_asin api scr now) asins (r, s))) = api_invoked s @ asins"
proof (induction asins arbitrary: r s)
  case Nil
  then show ?case by simp
next
  case (Cons a asins)
  obtain r' s' where st: "process_asin api scr now a (r, s) = (r', s')"
    by (cases "process_asin api scr now a (r, s)")
  have "api_invoked s' = api_invoked s @ [a]"
    using step_api [of api scr now a r s] st by simp
  then show ?case
    using Cons.IH [of r' s'] st by simp
qed

lemma run_success:
  "paapi_success (stats (snd (fold (process_asin api scr now) asins (r, s))))
     = paapi_success (stats s) + int (length (filter (\<lambda>a. yields_priced (api a)) asins))"
proof (induction asins arbitrary: r s)
  case Nil
  then show ?case by simp
next
  case (Cons a asins)
  obtain r' s' where st: "process_asin api scr now a (r, s) = (r', s')"
    by (cases "process_asin api scr now a (r, s)")
  have "paapi_success (stats s')
          = paapi_success (stats s) + (if yields_priced (api a) then 1 else 0)"
    using step_success [of api scr now a r s] st by simp
  then show ?case
    using Cons.IH [of r' s'] st by simp
qed

lemma run_results:
  "fst (fold (process_asin api scr now) asins (r, s)) b =
     (if b \<in> set asins then
        (if yields_priced (api b) then Some (case api b of Inr p \<Rightarrow> p)
         else if yields_priced (scr b) then Some (case scr b of Inr p \<Rightarrow> p) else Some None)
      else r b)"
proof (induction asins arbitrary: r s)
  case Nil
  then show ?case by simp
next
  case (Cons a asins)
  obtain r' s' where st: "process_asin api scr now a (r, s) = (r', s')"
    by (cases "process_asin api scr now a (r, s)")
  have "r' b =
          (if b = a then
             (if yields_priced (api a) then Some (case api a of Inr p \<Rightarrow> p)
              else if yields_priced (scr a) then Some (case scr a of Inr p \<Rightarrow> p)
              else Some None)
           else r b)"
    using step_results [of api scr now a r s b] st by simp
  then show ?case
    using Cons.IH [of r' s'] st by (auto split: if_splits)
qed

text \<open>
  C2. Over a run of \<open>get_real_product_data\<close> the fallback client is invoked for exactly
  the identifiers, in order, for which the structured source did not yield a priced
  product (it raised, returned nothing or returned a product without a price above
  zero), and for no other; the structured source is invoked once for every identifier;
  every identifier it yields a priced product for adds one to the count of
  structured-source successes; and the product it yielded is the result recorded for
  that identifier.
\<close>

theorem get_real_product_data_short_circuit:
  "scraper_invoked (snd (get_real_product_data api scr now asins s))
     = scraper_invoked s @ filter (\<lambda>a. \<not> yields_priced (api a)) asins
   \<and> api_invoked (snd (get_real_product_data api scr now asins s)) = api_invoked s @ asins
   \<and> paapi_success (stats (snd (get_real_product_data api scr now asins s)))
       = paapi_success (stats s) + int (length (filter (\<lambda>a. yields_priced (api a)) asins))
   \<and> (\<forall>a \<in> set asins. \<forall>p. api a = Inr (Some p) \<and> priced p \<longrightarrow>
         fst (get_real_product_data api scr now asins s) a = Some (Some p))"
  unfolding get_real_product_data_def
  by (simp add: run_scraper run_api run_success run_results yields_priced_def)

text \<open>
  Of two identifiers the structured source resolves the first: the fallback is invoked
  for the second only, and one structured-source success is counted.
\<close>

theorem get_real_product_data_example:
  "scraper_invoked (snd (get_real_product_data example_api example_scraper example_clock
      [''B08N5WRWNW'', ''B07QR73T66''] initial_scraper)) = [''B07QR73T66'']
   \<and> paapi_success (stats (snd (get_real_product_data example_api example_scraper example_clock
      [''B08N5WRWNW'', ''B07QR73T66''] initial_scraper))) = 1
   \<and> fst (get_real_product_data example_api example_scraper example_clock
      [''B08N5WRWNW'', ''B07QR73T66''] initial_scraper) ''B08N5WRWNW''
       = Some (Some example_product)"
  using get_real_product_data_short_circuit [of example_api example_scraper example_clock
      "[''B08N5WRWNW'', ''B07QR73T66'']" initial_scraper]
  by (simp add: example_api_def yields_priced_def priced_def example_product_def
      initial_scraper_def)

section \<open>Properties of the marking pass\<close>

lemma mark_loop_featured:
  "d \<in> set (mark_loop th k ds) \<Longrightarrow> d_featured d \<Longrightarrow>
   \<exists>n. d_discount_percent d = Some n \<and> th \<le> n"
  by (induction ds arbitrary: k) (auto split: if_splits option.splits)

lemma mark_loop_count: "length (filter d_featured (mark_loop th k ds)) \<le> 20 - k"
proof (induction ds arbitrary: k)
  case Nil
  then show ?case by simp
next
  case (Cons d ds)
  show ?case
    using Cons.IH [of "Suc k"] Cons.IH [of k] by (auto split: option.splits)
qed

lemma mark_loop_entries:
  "map (\<lambda>d. d\<lparr> d_featured := False \<rparr>) (mark_loop th k ds)
     = map (\<lambda>d. d\<lparr> d_featured := False \<rparr>) ds"
  by (induction ds arbitrary: k) auto

text \<open>
  C10. After the marking pass an entry is featured only if its discount is present and
  at least the threshold, at most 20 entries are featured, and the entries are those of
  the list sorted by discount with nothing but the flag changed (so every other entry
  has the flag off). The catalog a run selects goes through this pass with the threshold
  40, so the same holds of it.
\<close>

theorem mark_featured_deals_bounded:
  "(\<forall>d \<in> set (mark_featured_deals th deals).
      d_featured d \<longrightarrow> (\<exists>n. d_discount_percent d = Some n \<and> th \<le> n))
   \<and> length (filter d_featured (mark_featured_deals th deals)) \<le> 20
   \<and> map (\<lambda>d. d\<lparr> d_featured := False \<rparr>) (mark_featured_deals th deals)
       = map (\<lambda>d. d\<lparr> d_featured := False \<rparr>) (sort_deals_by_discount deals)
   \<and> (\<forall>d \<in> set (scrape_deals_final f now settings file new_deals m).
         d_featured d \<longrightarrow> (\<exists>n. d_discount_percent d = Some n \<and> 40 \<le> n))
   \<and> length (filter d_featured (scrape_deals_final f now settings file new_deals m)) \<le> 20"
proof -
  have a: "\<And>th deals. \<forall>d \<in> set (mark_featured_deals th deals).
             d_featured d \<longrightarrow> (\<exists>n. d_discount_percent d = Some n \<and> th \<le> n)"
    using mark_loop_featured by (auto simp: mark_featured_deals_def)
  have b: "\<And>th deals. length (filter d_featured (mark_featured_deals th deals)) \<le> 20"
    using mark_loop_count [of _ 0] by (simp add: mark_featured_deals_def)
  have c: "map (\<lambda>d. d\<lparr> d_featured := False \<rparr>) (mark_featured_deals th deals)
             = map (\<lambda>d. d\<lparr> d_featured := False \<rparr>) (sort_deals_by_discount deals)"
    by (simp add: mark_featured_deals_def mark_loop_entries)
  have d: "\<forall>d \<in> set (scrape_deals_final f now settings file new_deals m).
             d_featured d \<longrightarrow> (\<exists>n. d_discount_percent d = Some n \<and> 40 \<le> n)"
    using a [of 40] by (auto simp: scrape_deals_final_def split: sum.splits prod.splits)
  have e: "length (filter d_featured (scrape_deals_final f now settings file new_deals m)) \<le> 20"
    using b [of 40] by (auto simp: scrape_deals_final_def split: sum.splits prod.splits)
  show ?thesis
    using a b c d e by blast
qed

text \<open>
  A catalog file with a featured entry of discount 20 and one of discount 50, and no new
  deals: the run returns the second first, featured, and the first with the flag off.
\<close>

theorem scrape_deals_final_example:
  "scrape_deals_final iso_2024 (hours_us 48) example_settings
     (Some [mislabeled_deal, stale_deal]) [] new_manager
     = [stale_deal, mislabeled_deal\<lparr> d_featured := False \<rparr>]
   \<and> d_featured stale_deal \<and> d_discount_percent stale_deal = Some 50"
proof -
  have run: "scrape_deals_final iso_2024 (hours_us 48) example_settings
               (Some [mislabeled_deal, stale_deal]) [] new_manager
               = [stale_deal, mislabeled_deal\<lparr> d_featured := False \<rparr>]"
    by (simp add: scrape_deals_final_def process_deals_def load_existing_deals_def
        filter_fresh_deals_def is_fresh_def getattr_Deal_def manage_deal_count_def
        example_settings_def new_manager_def mark_featured_deals_def sort_deals_by_discount_def
        mislabeled_deal_def stale_deal_def example_deal_def Let_def)
  have "\<forall>d \<in> set (scrape_deals_final iso_2024 (hours_us 48) example_settings
                     (Some [mislabeled_deal, stale_deal]) [] new_manager).
          d_featured d \<longrightarrow> (\<exists>n. d_discount_percent d = Some n \<and> 40 \<le> n)"
    using mark_featured_deals_bounded [of 40 "[]" iso_2024 "hours_us 48" example_settings
        "Some [mislabeled_deal, stale_deal]" "[]" new_manager] by blast
  then have "d_featured stale_deal \<longrightarrow> (\<exists>n. d_discount_percent stale_deal = Some n \<and> 40 \<le> n)"
    using run by simp
  then show ?thesis
    using run by (simp add: stale_deal_def example_deal_def)
qed

section \<open>Properties of the structured source client\<close>

subsection \<open>Discount derivation\<close>








subsection \<open>The local check of the identifier\<close>









section \<open>Properties of the settings\<close>











end
